theory Spec2Isabelle
  imports Main "HOL-Library.Sublist"
begin

section \<open>JavaScript values\<close>

text \<open>
  The values the front end handles are decoded JSON documents and the literals of the
  code. Numbers are abstracted to integers (the only number the code writes is the
  default result-count limit 10, and all it asks of a number is whether it is zero
  and whether two of them are the same). An object is the list of its own properties; a property read takes the
  first entry with the name.
\<close>

datatype jsval =
    JUndefined
  | JNull
  | JBool bool
  | JNum int
  | JStr string
  | JArr "jsval list"
  | JObj "(string \<times> jsval) list"

datatype error =
    TypeError
  | RequestError string

text \<open>Truthiness, as \<^verbatim>\<open>||\<close> and \<^verbatim>\<open>v-if\<close> test it.\<close>

fun truthy :: "jsval \<Rightarrow> bool" where
  "truthy JUndefined = False"
| "truthy JNull = False"
| "truthy (JBool b) = b"
| "truthy (JNum n) = (n \<noteq> 0)"
| "truthy (JStr s) = (s \<noteq> [])"
| "truthy (JArr xs) = True"
| "truthy (JObj fs) = True"

definition js_or :: "jsval \<Rightarrow> jsval \<Rightarrow> jsval" where
  "js_or a b = (if truthy a then a else b)"

text \<open>
  \<^verbatim>\<open>v.name\<close> for the property names this program reads (\<^verbatim>\<open>results\<close>,
  \<^verbatim>\<open>summary\<close>, \<^verbatim>\<open>pmc_id\<close>), none of which is defined by a built-in prototype:
  reading a property of \<^verbatim>\<open>undefined\<close> or \<^verbatim>\<open>null\<close> throws a TypeError, an object
  gives its own property or \<^verbatim>\<open>undefined\<close>, and every other value gives \<^verbatim>\<open>undefined\<close>.
\<close>

fun get_prop :: "jsval \<Rightarrow> string \<Rightarrow> error + jsval" where
  "get_prop JUndefined name = Inl TypeError"
| "get_prop JNull name = Inl TypeError"
| "get_prop (JObj fs) name = Inr (case map_of fs name of None \<Rightarrow> JUndefined | Some v \<Rightarrow> v)"
| "get_prop v name = Inr JUndefined"

text \<open>
  The comparison a \<^verbatim>\<open>Set\<close> uses for its keys (SameValueZero). Primitive values are
  compared by value. Arrays and objects are compared by reference: the keys compared
  here are identifiers of different entries of one decoded JSON document, which shares
  no object between two places, so two of them are never the same reference.
\<close>

fun same_value_zero :: "jsval \<Rightarrow> jsval \<Rightarrow> bool" where
  "same_value_zero JUndefined JUndefined = True"
| "same_value_zero JNull JNull = True"
| "same_value_zero (JBool a) (JBool b) = (a = b)"
| "same_value_zero (JNum a) (JNum b) = (a = b)"
| "same_value_zero (JStr a) (JStr b) = (a = b)"
| "same_value_zero a b = False"

text \<open>A \<^verbatim>\<open>Set\<close> is the list of its keys in insertion order.\<close>

definition Set_has :: "jsval list \<Rightarrow> jsval \<Rightarrow> bool" where
  "Set_has seen k = list_ex (\<lambda>x. same_value_zero x k) seen"

definition Set_add :: "jsval list \<Rightarrow> jsval \<Rightarrow> jsval list" where
  "Set_add seen k = (if Set_has seen k then seen else seen @ [k])"

section \<open>The root component (App.vue)\<close>

text \<open>The reactive data of the component, as \<^verbatim>\<open>data()\<close> declares it.\<close>

record component =
  results :: jsval
  summary :: jsval
  loading :: bool
  searched :: bool

definition data_init :: component where
  "data_init = \<lparr>results = JArr [], summary = JStr '''', loading = False, searched = False\<rparr>"

subsection \<open>HTTP\<close>

record http_request =
  req_method :: string
  req_baseURL :: string
  req_url :: string
  req_data :: jsval

record http_response =
  status :: int
  data :: jsval

text \<open>
  Everything the program does that can be observed from outside a function: a write to
  a field of the component, an HTTP request leaving, its settlement (a rejection or a
  response), a line on the error console.
\<close>

datatype event =
    Set_results jsval
  | Set_summary jsval
  | Set_loading bool
  | Set_searched bool
  | Http_post http_request
  | Http_settled "error + http_response"
  | Console_error error

record world =
  app :: component
  history :: "event list"

definition emit :: "event \<Rightarrow> world \<Rightarrow> world" where
  "emit e w = w\<lparr>history := history w @ [e]\<rparr>"

definition set_results :: "jsval \<Rightarrow> world \<Rightarrow> world" where
  "set_results v w = emit (Set_results v) (w\<lparr>app := (app w)\<lparr>results := v\<rparr>\<rparr>)"

definition set_summary :: "jsval \<Rightarrow> world \<Rightarrow> world" where
  "set_summary v w = emit (Set_summary v) (w\<lparr>app := (app w)\<lparr>summary := v\<rparr>\<rparr>)"

definition set_loading :: "bool \<Rightarrow> world \<Rightarrow> world" where
  "set_loading b w = emit (Set_loading b) (w\<lparr>app := (app w)\<lparr>loading := b\<rparr>\<rparr>)"

definition set_searched :: "bool \<Rightarrow> world \<Rightarrow> world" where
  "set_searched b w = emit (Set_searched b) (w\<lparr>app := (app w)\<lparr>searched := b\<rparr>\<rparr>)"

subsection \<open>uniqueResults\<close>

text \<open>
  The callback handed to \<^verbatim>\<open>filter\<close>: it reads \<^verbatim>\<open>result.pmc_id\<close>, answers false when
  the set has it, and otherwise adds it and answers true. The set is local to one
  evaluation of the computed property and is threaded through the calls.
\<close>

definition keep_result :: "jsval list \<Rightarrow> jsval \<Rightarrow> (error + bool) \<times> jsval list" where
  "keep_result seen result =
     (case get_prop result ''pmc_id'' of
        Inl e \<Rightarrow> (Inl e, seen)
      | Inr k \<Rightarrow> if Set_has seen k then (Inr False, seen) else (Inr True, Set_add seen k))"

text \<open>\<^verbatim>\<open>Array.prototype.filter\<close> with that callback: left to right, into a new array.\<close>

fun filter_seen :: "jsval list \<Rightarrow> jsval list \<Rightarrow> error + jsval list" where
  "filter_seen seen [] = Inr []"
| "filter_seen seen (result # rest) =
     (case keep_result seen result of
        (Inl e, seen') \<Rightarrow> Inl e
      | (Inr keep, seen') \<Rightarrow>
          (case filter_seen seen' rest of
             Inl e \<Rightarrow> Inl e
           | Inr out \<Rightarrow> Inr (if keep then result # out else out)))"

text \<open>
  The computed property. \<^verbatim>\<open>this.results.filter\<close> is a function only when the stored
  value is an array; calling it on anything else throws a TypeError. The world is
  returned with the value, so that what the evaluation changes can be stated.
\<close>

definition uniqueResults :: "world \<Rightarrow> (error + jsval list) \<times> world" where
  "uniqueResults w =
     (case results (app w) of
        JArr rs \<Rightarrow> (filter_seen [] rs, w)
      | _ \<Rightarrow> (Inl TypeError, w))"

subsection \<open>The HTTP client wrapper (api.js)\<close>

record axios_instance =
  baseURL :: string

definition api :: axios_instance where
  "api = \<lparr>baseURL = ''http://localhost:5001/api''\<rparr>"

text \<open>\<^verbatim>\<open>instance.post(url, data)\<close>: the request leaves, and is the value awaited.\<close>

definition axios_post :: "axios_instance \<Rightarrow> string \<Rightarrow> jsval \<Rightarrow> world \<Rightarrow> http_request \<times> world" where
  "axios_post inst url d w =
     (let req = \<lparr>req_method = ''POST'', req_baseURL = baseURL inst, req_url = url, req_data = d\<rparr>
      in (req, emit (Http_post req) w))"

text \<open>
  An \<^verbatim>\<open>async\<close> function is two functions: what it does up to its \<^verbatim>\<open>await\<close>, and what it
  does once the awaited request has settled, with either a rejection (\<open>Inl\<close>) or a
  response (\<open>Inr\<close>). A default parameter takes its default when the argument is
  \<^verbatim>\<open>undefined\<close>, which is also what an omitted argument is.
\<close>

definition searchAPI_send :: "jsval \<Rightarrow> jsval \<Rightarrow> world \<Rightarrow> http_request \<times> world" where
  "searchAPI_send query topK_arg w =
     (let topK = (if topK_arg = JUndefined then JNum 10 else topK_arg)
      in axios_post api ''/search'' (JObj [(''query'', query), (''top_k'', topK)]) w)"

definition searchAPI_settle :: "error + http_response \<Rightarrow> world \<Rightarrow> (error + jsval) \<times> world" where
  "searchAPI_settle reply w =
     (let w1 = emit (Http_settled reply) w
      in case reply of
           Inl e \<Rightarrow> (Inl e, w1)
         | Inr response \<Rightarrow> (Inr (data response), w1))"

text \<open>The network: what each request settles with.\<close>

type_synonym network = "http_request \<Rightarrow> error + http_response"

definition searchAPI :: "network \<Rightarrow> jsval \<Rightarrow> jsval \<Rightarrow> world \<Rightarrow> (error + jsval) \<times> world" where
  "searchAPI net query topK_arg w =
     (case searchAPI_send query topK_arg w of
        (req, w1) \<Rightarrow> searchAPI_settle (net req) w1)"

subsection \<open>handleSearch\<close>

text \<open>Lines 47 to 51, up to the \<^verbatim>\<open>await\<close>.\<close>

definition handleSearch_submit :: "jsval \<Rightarrow> world \<Rightarrow> http_request \<times> world" where
  "handleSearch_submit query w =
     (let w1 = set_loading True w;
          w2 = set_searched True w1
      in searchAPI_send query JUndefined w2)"

text \<open>
  The rest of the \<^verbatim>\<open>try\<close> block, from the settlement on. It returns the exception that
  leaves it, if any, and the world as it is at that point: a write made before a throw
  stays made.
\<close>

definition try_block :: "error + http_response \<Rightarrow> world \<Rightarrow> error option \<times> world" where
  "try_block reply w =
     (case searchAPI_settle reply w of
        (Inl e, w1) \<Rightarrow> (Some e, w1)
      | (Inr d, w1) \<Rightarrow>
          (case get_prop d ''results'' of
             Inl e \<Rightarrow> (Some e, w1)
           | Inr r \<Rightarrow>
               (let w2 = set_results (js_or r (JArr [])) w1
                in case get_prop d ''summary'' of
                     Inl e \<Rightarrow> (Some e, w2)
                   | Inr s \<Rightarrow> (None, set_summary (js_or s (JStr '''')) w2))))"

definition catch_block :: "error \<Rightarrow> world \<Rightarrow> error option \<times> world" where
  "catch_block e w =
     (let w1 = emit (Console_error e) w;
          w2 = set_results (JArr []) w1
      in (None, set_summary (JStr '''') w2))"

text \<open>
  From the settlement to the end. The first component is the exception the function
  would leave to its caller: one that left the \<^verbatim>\<open>catch\<close> block would skip line 60.
\<close>

definition handleSearch_settle :: "error + http_response \<Rightarrow> world \<Rightarrow> error option \<times> world" where
  "handleSearch_settle reply w =
     (case try_block reply w of
        (None, w1) \<Rightarrow> (None, set_loading False w1)
      | (Some e, w1) \<Rightarrow>
          (case catch_block e w1 of
             (None, w2) \<Rightarrow> (None, set_loading False w2)
           | (Some e', w2) \<Rightarrow> (Some e', w2)))"

text \<open>One submission from start to end, nothing else running in between.\<close>

definition handleSearch :: "network \<Rightarrow> jsval \<Rightarrow> world \<Rightarrow> error option \<times> world" where
  "handleSearch net query w =
     (case handleSearch_submit query w of
        (req, w1) \<Rightarrow> handleSearch_settle (net req) w1)"

section \<open>The results view (SearchResults.vue)\<close>

text \<open>
  The template is four blocks, each under its own \<^verbatim>\<open>v-if\<close>; the view is the list of the
  blocks that are rendered, in the order of the template. The markup inside a result
  card is not modelled: the block of cards carries the entries it shows.
\<close>

datatype block =
    Loading_message
  | Summary_card jsval
  | Result_cards "jsval list"
  | No_results_message

definition SearchResults :: "jsval list \<Rightarrow> jsval \<Rightarrow> bool \<Rightarrow> bool \<Rightarrow> block list" where
  "SearchResults p_results p_summary p_loading p_searched =
     (if p_loading then [Loading_message] else []) @
     (if truthy p_summary then [Summary_card p_summary] else []) @
     (if length p_results > 0 then [Result_cards p_results] else []) @
     (if \<not> p_loading \<and> length p_results = 0 \<and> p_searched then [No_results_message] else [])"

text \<open>The root template hands the view the computed property and three fields.\<close>

definition App_render :: "world \<Rightarrow> (error + block list) \<times> world" where
  "App_render w =
     (case uniqueResults w of
        (Inl e, w1) \<Rightarrow> (Inl e, w1)
      | (Inr rs, w1) \<Rightarrow>
          (Inr (SearchResults rs (summary (app w1)) (loading (app w1)) (searched (app w1))), w1))"

section \<open>Sequences of operations\<close>

text \<open>
  What can happen to the component, in any order and any number of times: a query is
  submitted, a pending request settles, the template is rendered.
\<close>

datatype operation =
    Submit jsval
  | Settle "error + http_response"
  | Render

fun step :: "operation \<Rightarrow> world \<Rightarrow> world" where
  "step (Submit query) w = snd (handleSearch_submit query w)"
| "step (Settle reply) w = snd (handleSearch_settle reply w)"
| "step Render w = snd (App_render w)"

fun run :: "operation list \<Rightarrow> world \<Rightarrow> world" where
  "run [] w = w"
| "run (op # ops) w = run ops (step op w)"

section \<open>Vocabulary of the statements\<close>

text \<open>The identifier of an entry: its \<^verbatim>\<open>pmc_id\<close>, \<^verbatim>\<open>undefined\<close> when it has none.\<close>

definition pmc_id :: "jsval \<Rightarrow> jsval" where
  "pmc_id r = (case get_prop r ''pmc_id'' of Inl e \<Rightarrow> JUndefined | Inr k \<Rightarrow> k)"

fun is_primitive :: "jsval \<Rightarrow> bool" where
  "is_primitive (JArr xs) = False"
| "is_primitive (JObj fs) = False"
| "is_primitive v = True"

fun is_object :: "jsval \<Rightarrow> bool" where
  "is_object (JObj fs) = True"
| "is_object v = False"

fun nullish :: "jsval \<Rightarrow> bool" where
  "nullish JUndefined = True"
| "nullish JNull = True"
| "nullish v = False"

text \<open>
  An entry with a key: its identifier can be read (the entry is neither \<^verbatim>\<open>null\<close> nor
  \<^verbatim>\<open>undefined\<close>) and is a primitive value or absent. The data model asks for more, an
  object with a string identifier.
\<close>

definition keyed :: "jsval \<Rightarrow> bool" where
  "keyed r = (\<not> nullish r \<and> is_primitive (pmc_id r))"

text \<open>
  What the handler leaves in a field after a response whose body is neither \<^verbatim>\<open>null\<close>
  nor \<^verbatim>\<open>undefined\<close>: the body's property when it is truthy, the default otherwise.
\<close>

definition field_or :: "jsval \<Rightarrow> string \<Rightarrow> jsval \<Rightarrow> jsval" where
  "field_or d name dflt = js_or (case get_prop d name of Inl e \<Rightarrow> JUndefined | Inr v \<Rightarrow> v) dflt"

text \<open>The events that matter to the order of the loading flag and the request.\<close>

fun loading_or_http :: "event \<Rightarrow> bool" where
  "loading_or_http (Set_loading b) = True"
| "loading_or_http (Http_post req) = True"
| "loading_or_http (Http_settled reply) = True"
| "loading_or_http e = False"

section \<open>Scenarios\<close>

text \<open>The inputs of the scenarios the specification lists, used as concrete instances.\<close>

definition paper_A :: jsval where
  "paper_A = JObj [(''pmc_id'', JStr ''PMC1''), (''title'', JStr ''A''),
                   (''year'', JNum 2020), (''journal'', JStr ''J1'')]"

definition paper_A_dup :: jsval where
  "paper_A_dup = JObj [(''pmc_id'', JStr ''PMC1''), (''title'', JStr ''A-dup''),
                       (''year'', JNum 2021), (''journal'', JStr ''J2'')]"

definition untagged_x :: jsval where
  "untagged_x = JObj [(''title'', JStr ''x'')]"

definition untagged_y :: jsval where
  "untagged_y = JObj [(''title'', JStr ''y'')]"

definition world_init :: world where
  "world_init = \<lparr>app = data_init, history = []\<rparr>"

text \<open>A world whose component holds the given results and a summary, after a search.\<close>

definition world_holding :: "jsval list \<Rightarrow> world" where
  "world_holding rs =
     \<lparr>app = \<lparr>results = JArr rs, summary = JStr ''S'', loading = False, searched = True\<rparr>,
      history = []\<rparr>"

definition response_dup :: http_response where
  "response_dup =
     \<lparr>status = 200,
      data = JObj [(''results'', JArr [paper_A, paper_A_dup]), (''summary'', JStr ''S'')]\<rparr>"

definition response_null :: http_response where
  "response_null = \<lparr>status = 200, data = JNull\<rparr>"

definition response_text :: http_response where
  "response_text = \<lparr>status = 200, data = JStr ''hello''\<rparr>"

definition network_down :: network where
  "network_down = (\<lambda>req. Inl (RequestError ''Network Error''))"

section \<open>Deduplication\<close>

lemma same_value_zero_primitive: "is_primitive k \<Longrightarrow> same_value_zero x k = (x = k)"
  by (cases x; cases k) auto

lemma Set_has_primitive: "is_primitive k \<Longrightarrow> Set_has seen k = (k \<in> set seen)"
  by (auto simp: Set_has_def list_ex_iff same_value_zero_primitive)

lemma get_prop_pmc_id: "\<not> nullish r \<Longrightarrow> get_prop r ''pmc_id'' = Inr (pmc_id r)"
  by (cases r) (auto simp: pmc_id_def)

lemma keep_result_keyed:
  "keyed r \<Longrightarrow>
   keep_result seen r =
     (if pmc_id r \<in> set seen then (Inr False, seen) else (Inr True, seen @ [pmc_id r]))"
  by (simp add: keyed_def keep_result_def get_prop_pmc_id Set_has_primitive Set_add_def)

lemma filter_seen_Cons_keyed:
  assumes "keyed r"
    and "filter_seen (if pmc_id r \<in> set seen then seen else seen @ [pmc_id r]) rs = Inr out"
  shows "filter_seen seen (r # rs) = Inr (if pmc_id r \<in> set seen then out else r # out)"
  using assms by (auto simp: keep_result_keyed split: if_splits)

text \<open>
  The invariant of the loop, for any set of identifiers already seen: the loop ends
  without throwing; what it keeps is a subsequence of what it was given, with no
  identifier twice and none that was seen before; and for an identifier not seen
  before, the first entry kept with it is the first entry given with it.
\<close>

lemma filter_seen_keyed:
  assumes "\<forall>r\<in>set rs. keyed r"
  shows "\<exists>out. filter_seen seen rs = Inr out \<and> subseq out rs
           \<and> distinct (map pmc_id out)
           \<and> set (map pmc_id out) = set (map pmc_id rs) - set seen
           \<and> (\<forall>k. k \<notin> set seen \<longrightarrow>
                  find (\<lambda>x. pmc_id x = k) out = find (\<lambda>x. pmc_id x = k) rs)"
  using assms
proof (induction rs arbitrary: seen)
  case Nil
  then show ?case by simp
next
  case (Cons r rs)
  let ?seen' = "if pmc_id r \<in> set seen then seen else seen @ [pmc_id r]"
  from Cons.prems have r: "keyed r" and rest: "\<forall>r\<in>set rs. keyed r"
    by simp_all
  from Cons.IH [OF rest, of ?seen'] obtain out where
    out: "filter_seen ?seen' rs = Inr out" and sub: "subseq out rs"
    and dist: "distinct (map pmc_id out)"
    and ids: "set (map pmc_id out) = set (map pmc_id rs) - set ?seen'"
    and first: "\<forall>k. k \<notin> set ?seen' \<longrightarrow>
                  find (\<lambda>x. pmc_id x = k) out = find (\<lambda>x. pmc_id x = k) rs"
    by blast
  have run: "filter_seen seen (r # rs) = Inr (if pmc_id r \<in> set seen then out else r # out)"
    by (rule filter_seen_Cons_keyed [OF r out])
  show ?case
  proof (cases "pmc_id r \<in> set seen")
    case True
    with run sub dist ids first show ?thesis by (auto simp: subseq_Cons')
  next
    case False
    with run sub dist ids first show ?thesis by auto
  qed
qed

text \<open>
  C1. When the stored results are a sequence of entries with keys, the deduplicated
  sequence is computed without an exception and (1) is a subsequence of the stored one, so
  the surviving entries keep their relative order; (2) holds no identifier twice;
  (3) holds exactly the identifiers of the stored sequence, so each of them exactly
  once; (4) for each of them, the entry it holds is the first entry of the stored
  sequence with that identifier, whole.
\<close>

theorem uniqueResults_first_occurrences:
  assumes "results (app w) = JArr rs" and "\<forall>r\<in>set rs. keyed r"
  shows "\<exists>out. fst (uniqueResults w) = Inr out
           \<and> subseq out rs
           \<and> distinct (map pmc_id out)
           \<and> set (map pmc_id out) = set (map pmc_id rs)
           \<and> (\<forall>r\<in>set rs. find (\<lambda>x. pmc_id x = pmc_id r) out
                             = find (\<lambda>x. pmc_id x = pmc_id r) rs)"
proof -
  from filter_seen_keyed [OF assms(2), of "[]"] obtain out where
    "filter_seen [] rs = Inr out" "subseq out rs" "distinct (map pmc_id out)"
    "set (map pmc_id out) = set (map pmc_id rs)"
    "\<forall>k. find (\<lambda>x. pmc_id x = k) out = find (\<lambda>x. pmc_id x = k) rs"
    by auto
  with assms(1) show ?thesis
    by (auto simp: uniqueResults_def)
qed


section \<open>Entries without an identifier\<close>

lemma Set_has_not_primitive: "\<not> is_primitive k \<Longrightarrow> \<not> Set_has seen k"
  by (cases k) (auto simp: Set_has_def list_ex_iff)

lemma keep_result_readable:
  "\<not> nullish r \<Longrightarrow>
   keep_result seen r =
     (if Set_has seen (pmc_id r) then (Inr False, seen) else (Inr True, seen @ [pmc_id r]))"
  by (simp add: keep_result_def get_prop_pmc_id Set_add_def)

text \<open>
  The loop on entries whose identifier can be read, whatever the identifier is: of the
  entries with a given primitive identifier, it keeps none when the identifier was seen
  before, and the first one alone otherwise.
\<close>

lemma filter_seen_readable:
  assumes "\<forall>r\<in>set rs. \<not> nullish r"
  shows "\<exists>out. filter_seen seen rs = Inr out \<and> subseq out rs
           \<and> (\<forall>k. is_primitive k \<longrightarrow>
                  filter (\<lambda>r. pmc_id r = k) out =
                    (if k \<in> set seen then [] else take 1 (filter (\<lambda>r. pmc_id r = k) rs)))"
  using assms
proof (induction rs arbitrary: seen)
  case Nil
  then show ?case by simp
next
  case (Cons r rs)
  let ?seen' = "if Set_has seen (pmc_id r) then seen else seen @ [pmc_id r]"
  from Cons.prems have r: "\<not> nullish r" and rest: "\<forall>r\<in>set rs. \<not> nullish r"
    by simp_all
  from Cons.IH [OF rest, of ?seen'] obtain out where
    out: "filter_seen ?seen' rs = Inr out" and sub: "subseq out rs"
    and once: "\<forall>k. is_primitive k \<longrightarrow>
                 filter (\<lambda>r. pmc_id r = k) out =
                   (if k \<in> set ?seen' then [] else take 1 (filter (\<lambda>r. pmc_id r = k) rs))"
    by blast
  show ?case
  proof (cases "Set_has seen (pmc_id r)")
    case True
    then have prim: "is_primitive (pmc_id r)"
      using Set_has_not_primitive by blast
    with True have mem: "pmc_id r \<in> set seen"
      by (simp add: Set_has_primitive)
    from True out have "filter_seen seen (r # rs) = Inr out"
      by (simp add: keep_result_readable [OF r])
    with True sub once mem show ?thesis
      by (auto simp: subseq_Cons')
  next
    case False
    with out have run: "filter_seen seen (r # rs) = Inr (r # out)"
      by (simp add: keep_result_readable [OF r])
    have "filter (\<lambda>x. pmc_id x = k) (r # out) =
            (if k \<in> set seen then [] else take 1 (filter (\<lambda>x. pmc_id x = k) (r # rs)))"
      if k: "is_primitive k" for k
    proof (cases "pmc_id r = k")
      case True
      with k False have "k \<notin> set seen"
        by (simp add: Set_has_primitive)
      with True False once k show ?thesis by simp
    next
      case neq: False
      with False once k show ?thesis by auto
    qed
    with run sub show ?thesis by auto
  qed
qed

text \<open>
  C9. When the identifier of every stored entry can be read, the deduplicated
  sequence is computed without an exception, and the entries it holds that have no
  identifier are the first such entry of the stored sequence, alone: every later one is
  dropped, and nothing is logged of it.
\<close>

theorem uniqueResults_missing_identifier:
  assumes "results (app w) = JArr rs" and "\<forall>r\<in>set rs. \<not> nullish r"
  shows "\<exists>out. fst (uniqueResults w) = Inr out
           \<and> filter (\<lambda>r. pmc_id r = JUndefined) out
               = take 1 (filter (\<lambda>r. pmc_id r = JUndefined) rs)
           \<and> history (snd (uniqueResults w)) = history w"
proof -
  from filter_seen_readable [OF assms(2), of "[]"] obtain out where
    "filter_seen [] rs = Inr out"
    "\<forall>k. is_primitive k \<longrightarrow>
        filter (\<lambda>r. pmc_id r = k) out = take 1 (filter (\<lambda>r. pmc_id r = k) rs)"
    by auto
  with assms(1) show ?thesis
    by (auto simp: uniqueResults_def)
qed

text \<open>
  C10. Evaluating the computed property changes nothing: the world after it is the world
  before it, so the stored results, the summary and the two flags are what they were,
  and nothing was written, sent or logged. What it returns is a value apart from the
  stored one.
\<close>

theorem uniqueResults_frame:
  "snd (uniqueResults w) = w
   \<and> results (app (snd (uniqueResults w))) = results (app w)
   \<and> summary (app (snd (uniqueResults w))) = summary (app w)
   \<and> loading (app (snd (uniqueResults w))) = loading (app w)
   \<and> searched (app (snd (uniqueResults w))) = searched (app w)
   \<and> history (snd (uniqueResults w)) = history w"
  by (simp add: uniqueResults_def split: jsval.split)

section \<open>The search handler\<close>

lemmas world_writes =
  set_results_def set_summary_def set_loading_def set_searched_def emit_def

lemmas handler_defs =
  handleSearch_def handleSearch_submit_def handleSearch_settle_def try_block_def
  catch_block_def searchAPI_send_def searchAPI_settle_def axios_post_def api_def Let_def

lemma handleSearch_submit_app:
  "app (snd (handleSearch_submit query w)) = (app w)\<lparr>loading := True, searched := True\<rparr>"
  by (simp add: handler_defs world_writes)

lemma handleSearch_submit_history:
  "history (snd (handleSearch_submit query w)) =
     history w @ [Set_loading True, Set_searched True, Http_post (fst (handleSearch_submit query w))]"
  by (simp add: handler_defs world_writes)

lemma handleSearch_settle_rejected:
  "handleSearch_settle (Inl e) w =
     (None, \<lparr>app = (app w)\<lparr>results := JArr [], summary := JStr '''', loading := False\<rparr>,
             history = history w @ [Http_settled (Inl e), Console_error e,
                                    Set_results (JArr []), Set_summary (JStr ''''),
                                    Set_loading False]\<rparr>)"
  by (simp add: handler_defs world_writes)

lemma handleSearch_settle_nullish:
  "nullish (data response) \<Longrightarrow>
   handleSearch_settle (Inr response) w =
     (None, \<lparr>app = (app w)\<lparr>results := JArr [], summary := JStr '''', loading := False\<rparr>,
             history = history w @ [Http_settled (Inr response), Console_error TypeError,
                                    Set_results (JArr []), Set_summary (JStr ''''),
                                    Set_loading False]\<rparr>)"
  by (cases "data response") (simp_all add: handler_defs world_writes)

lemma handleSearch_settle_resolved:
  "\<not> nullish (data response) \<Longrightarrow>
   handleSearch_settle (Inr response) w =
     (None, \<lparr>app = (app w)\<lparr>results := field_or (data response) ''results'' (JArr []),
                           summary := field_or (data response) ''summary'' (JStr ''''),
                           loading := False\<rparr>,
             history = history w @ [Http_settled (Inr response),
                                    Set_results (field_or (data response) ''results'' (JArr [])),
                                    Set_summary (field_or (data response) ''summary'' (JStr '''')),
                                    Set_loading False]\<rparr>)"
  by (cases "data response") (simp_all add: handler_defs world_writes field_or_def)


lemma App_render_world: "snd (App_render w) = w"
  by (simp add: App_render_def uniqueResults_def split: jsval.split sum.split)

lemma handleSearch_settle_cases:
  obtains (rejected) e where "reply = Inl e"
  | (nullish) response where "reply = Inr response" "nullish (data response)"
  | (resolved) response where "reply = Inr response" "\<not> nullish (data response)"
  by (cases reply) auto

lemma field_or_not_object:
  "\<not> is_object d \<Longrightarrow> \<not> nullish d \<Longrightarrow>
   field_or d ''results'' (JArr []) = JArr [] \<and> field_or d ''summary'' (JStr '''') = JStr ''''"
  by (cases d) (simp_all add: field_or_def js_or_def)

lemma handleSearch_settle_loading:
  "\<not> loading (app (snd (handleSearch_settle reply w)))
   \<and> filter loading_or_http (history (snd (handleSearch_settle reply w))) =
       filter loading_or_http (history w) @ [Http_settled reply, Set_loading False]"
  by (cases reply rule: handleSearch_settle_cases)
     (simp_all add: handleSearch_settle_rejected handleSearch_settle_nullish
        handleSearch_settle_resolved)

text \<open>
  C2. Whatever the state was, when the request is rejected the handler ends with the
  results the empty array and the summary the empty string, and the component is then
  exactly what a response with no results and an empty summary would have left. After
  a whole submission whose request is rejected, what is rendered is the no-results
  message alone.
\<close>

theorem handleSearch_failure_is_empty:
  "results (app (snd (handleSearch_settle (Inl e) w))) = JArr []
   \<and> summary (app (snd (handleSearch_settle (Inl e) w))) = JStr ''''
   \<and> app (snd (handleSearch_settle (Inl e) w)) =
       app (snd (handleSearch_settle
         (Inr \<lparr>status = 200, data = JObj [(''results'', JArr []), (''summary'', JStr '''')]\<rparr>) w))
   \<and> (net (fst (handleSearch_submit query w)) = Inl e \<longrightarrow>
         results (app (snd (handleSearch net query w))) = JArr []
         \<and> summary (app (snd (handleSearch net query w))) = JStr ''''
         \<and> fst (App_render (snd (handleSearch net query w))) = Inr [No_results_message])"
proof -
  have settle: "results (app (snd (handleSearch_settle (Inl e) v))) = JArr []
      \<and> summary (app (snd (handleSearch_settle (Inl e) v))) = JStr ''''
      \<and> app (snd (handleSearch_settle (Inl e) v)) =
          app (snd (handleSearch_settle
            (Inr \<lparr>status = 200, data = JObj [(''results'', JArr []), (''summary'', JStr '''')]\<rparr>) v))"
    for v
    by (simp add: handleSearch_settle_rejected handleSearch_settle_resolved field_or_def js_or_def)
  have whole: "results (app (snd (handleSearch net query w))) = JArr []
      \<and> summary (app (snd (handleSearch net query w))) = JStr ''''
      \<and> fst (App_render (snd (handleSearch net query w))) = Inr [No_results_message]"
    if rej: "net (fst (handleSearch_submit query w)) = Inl e"
  proof -
    obtain req w1 where sub: "handleSearch_submit query w = (req, w1)"
      by (cases "handleSearch_submit query w")
    have w1: "app w1 = (app w)\<lparr>loading := True, searched := True\<rparr>"
      using handleSearch_submit_app [of query w] sub by simp
    have "handleSearch net query w = handleSearch_settle (Inl e) w1"
      using rej by (simp add: handleSearch_def sub)
    then show ?thesis
      by (simp add: handleSearch_settle_rejected w1 App_render_def uniqueResults_def
          SearchResults_def)
  qed
  from settle [of w] whole show ?thesis
    by blast
qed

text \<open>
  C3. The part of the handler before its \<^verbatim>\<open>await\<close> leaves the loading flag true, and
  of the writes to the flag and the events of the request it adds to the history the
  write of true and then the request, nothing else. The part after the settlement,
  whatever the request settled with, leaves the flag false and adds the settlement and
  then one write of false, nothing else. So one submission adds, in this order, the
  write of true, the request, its settlement and the write of false, on the path of a
  response and on the path of a rejection alike.
\<close>

theorem handleSearch_loading_order:
  "loading (app (snd (handleSearch_submit query w)))
   \<and> filter loading_or_http (history (snd (handleSearch_submit query w))) =
       filter loading_or_http (history w) @
       [Set_loading True, Http_post (fst (handleSearch_submit query w))]
   \<and> \<not> loading (app (snd (handleSearch_settle reply w')))
   \<and> filter loading_or_http (history (snd (handleSearch_settle reply w'))) =
       filter loading_or_http (history w') @ [Http_settled reply, Set_loading False]
   \<and> \<not> loading (app (snd (handleSearch net query w)))
   \<and> filter loading_or_http (history (snd (handleSearch net query w))) =
       filter loading_or_http (history w) @
       [Set_loading True,
        Http_post (fst (handleSearch_submit query w)),
        Http_settled (net (fst (handleSearch_submit query w))),
        Set_loading False]"
proof -
  obtain req w1 where sub: "handleSearch_submit query w = (req, w1)"
    by (cases "handleSearch_submit query w")
  have h1: "history w1 = history w @ [Set_loading True, Set_searched True, Http_post req]"
    using handleSearch_submit_history [of query w] sub by simp
  have a1: "loading (app w1)"
    using handleSearch_submit_app [of query w] sub by simp
  have run: "handleSearch net query w = handleSearch_settle (net req) w1"
    by (simp add: handleSearch_def sub)
  from a1 show ?thesis
    using handleSearch_settle_loading [of reply w'] handleSearch_settle_loading [of "net req" w1]
    by (simp add: run sub h1)
qed


lemma handleSearch_settle_searched:
  "searched (app (snd (handleSearch_settle reply w))) = searched (app w)"
  by (cases reply rule: handleSearch_settle_cases)
     (simp_all add: handleSearch_settle_rejected handleSearch_settle_nullish
        handleSearch_settle_resolved)

lemma handleSearch_settle_no_searched_write:
  "Set_searched b \<in> set (history (snd (handleSearch_settle reply w)))
     \<longleftrightarrow> Set_searched b \<in> set (history w)"
  by (cases reply rule: handleSearch_settle_cases)
     (simp_all add: handleSearch_settle_rejected handleSearch_settle_nullish
        handleSearch_settle_resolved)

lemma step_searched: "searched (app w) \<Longrightarrow> searched (app (step op w))"
  by (cases op)
     (simp_all add: handleSearch_submit_app handleSearch_settle_searched App_render_world)

lemma step_never_clears_searched:
  "Set_searched False \<notin> set (history w) \<Longrightarrow> Set_searched False \<notin> set (history (step op w))"
  by (cases op)
     (simp_all add: handleSearch_submit_history handleSearch_settle_no_searched_write
        App_render_world)

lemma run_searched: "searched (app w) \<Longrightarrow> searched (app (run ops w))"
  by (induction ops arbitrary: w) (simp_all add: step_searched)

lemma run_never_clears_searched:
  "Set_searched False \<notin> set (history w) \<Longrightarrow> Set_searched False \<notin> set (history (run ops w))"
  by (induction ops arbitrary: w) (simp_all add: step_never_clears_searched)

lemma run_append: "run (ops @ ops') w = run ops' (run ops w)"
  by (induction ops arbitrary: w) simp_all

text \<open>
  C4. A submission sets the searched flag, and the flag is still set after anything
  that follows it, a rejection of its request included. Through any sequence of
  operations a flag that is set stays set, and a history without a write of false to
  the flag stays without one.
\<close>

theorem searched_is_a_latch:
  "searched (app (step (Submit query) w))
   \<and> searched (app (run (Submit query # ops) w))
   \<and> (searched (app (run ops w)) \<longrightarrow> searched (app (run (ops @ ops') w)))
   \<and> (Set_searched False \<notin> set (history w) \<longrightarrow>
        Set_searched False \<notin> set (history (run ops w)))"
proof -
  have sub: "searched (app (step (Submit query) w))"
    by (simp add: handleSearch_submit_app)
  then have "searched (app (run ops (step (Submit query) w)))"
    by (rule run_searched)
  with sub show ?thesis
    by (simp add: run_append run_searched run_never_clears_searched)
qed

text \<open>
  C5. When the request succeeds with a body that is an object, whose
  \<^verbatim>\<open>results\<close> field is an array or missing and whose \<^verbatim>\<open>summary\<close> field is a string or
  missing, the handler ends with the results the \<^verbatim>\<open>results\<close> field, or the empty array
  when it is missing, and the summary the \<^verbatim>\<open>summary\<close> field, or the empty string when it
  is missing, whatever the two held before.
\<close>

theorem handleSearch_success_replaces:
  assumes "data response = JObj fs"
    and "\<forall>v. map_of fs ''results'' = Some v \<longrightarrow> (\<exists>xs. v = JArr xs)"
    and "\<forall>v. map_of fs ''summary'' = Some v \<longrightarrow> (\<exists>s. v = JStr s)"
  shows "results (app (snd (handleSearch_settle (Inr response) w))) =
           (case map_of fs ''results'' of None \<Rightarrow> JArr [] | Some v \<Rightarrow> v)
       \<and> summary (app (snd (handleSearch_settle (Inr response) w))) =
           (case map_of fs ''summary'' of None \<Rightarrow> JStr '''' | Some v \<Rightarrow> v)"
proof -
  have "\<not> nullish (data response)"
    using assms(1) by simp
  then have settle: "app (snd (handleSearch_settle (Inr response) w)) =
      (app w)\<lparr>results := field_or (JObj fs) ''results'' (JArr []),
              summary := field_or (JObj fs) ''summary'' (JStr ''''),
              loading := False\<rparr>"
    by (simp add: handleSearch_settle_resolved assms(1))
  have r: "field_or (JObj fs) ''results'' (JArr []) =
             (case map_of fs ''results'' of None \<Rightarrow> JArr [] | Some v \<Rightarrow> v)"
    using assms(2) by (auto simp: field_or_def js_or_def split: option.split)
  have s: "field_or (JObj fs) ''summary'' (JStr '''') =
             (case map_of fs ''summary'' of None \<Rightarrow> JStr '''' | Some v \<Rightarrow> v)"
    using assms(3) by (auto simp: field_or_def js_or_def split: option.split)
  show ?thesis
    by (simp add: settle r s)
qed

text \<open>
  C6. For every query (a string or not) and every network, the wrapper sends exactly one
  request, a POST to the path \<^verbatim>\<open>/search\<close> under the base \<^verbatim>\<open>http://localhost:5001/api\<close>
  whose body is the object of the query and of \<^verbatim>\<open>top_k\<close>, the latter the caller's
  limit, or 10 when the caller gives none; it touches nothing of the component; and it
  returns the body of the response as it came, or rejects as the request did.
\<close>

theorem searchAPI_contract:
  "searchAPI net query topK_arg w =
     (let req = \<lparr>req_method = ''POST'', req_baseURL = ''http://localhost:5001/api'',
                 req_url = ''/search'',
                 req_data = JObj [(''query'', query),
                                  (''top_k'', if topK_arg = JUndefined then JNum 10 else topK_arg)]\<rparr>
      in (case net req of Inl e \<Rightarrow> Inl e | Inr response \<Rightarrow> Inr (data response),
          w\<lparr>history := history w @ [Http_post req, Http_settled (net req)]\<rparr>))"
  by (simp add: searchAPI_def handler_defs world_writes split: sum.split)

text \<open>
  C7. The view shows the no-results message exactly when it is not loading, the results
  it was given are empty, and a search has been made.
\<close>

theorem no_results_message_iff:
  "No_results_message \<in> set (SearchResults p_results p_summary p_loading p_searched)
     \<longleftrightarrow> \<not> p_loading \<and> p_results = [] \<and> p_searched"
  by (auto simp: SearchResults_def)

lemma try_block_rejected: "fst (try_block (Inl e) w) = Some e"
  by (simp add: try_block_def searchAPI_settle_def Let_def)

lemma try_block_nullish:
  "nullish (data response) \<Longrightarrow> fst (try_block (Inr response) w) = Some TypeError"
  by (cases "data response") (simp_all add: try_block_def searchAPI_settle_def Let_def)

lemma try_block_readable:
  "\<not> nullish (data response) \<Longrightarrow> fst (try_block (Inr response) w) = None"
  by (cases "data response") (simp_all add: try_block_def searchAPI_settle_def Let_def)

text \<open>
  C8, as the code has it. However the request settles, the handler leaves no exception
  to its caller and ends with the loading flag false. When the request is rejected, or
  the body of the response is not an object, it ends with the results the empty array
  and the summary the empty string. An exception leaves the \<^verbatim>\<open>try\<close> block, and is caught
  and logged, in two cases only: the request was rejected, or the body is \<^verbatim>\<open>null\<close> or
  \<^verbatim>\<open>undefined\<close>, whose field cannot be read. For every other body, a string, a number
  or a boolean included, reading its fields throws nothing and nothing is logged: the
  two fields are empty by their defaults.
\<close>

theorem handleSearch_never_throws:
  "fst (handleSearch_settle reply w) = None
   \<and> fst (handleSearch net query w) = None
   \<and> \<not> loading (app (snd (handleSearch_settle reply w)))
   \<and> ((\<forall>response. reply = Inr response \<longrightarrow> \<not> is_object (data response)) \<longrightarrow>
         results (app (snd (handleSearch_settle reply w))) = JArr []
         \<and> summary (app (snd (handleSearch_settle reply w))) = JStr '''')
   \<and> (\<forall>e. reply = Inl e \<longrightarrow>
         fst (try_block reply w) = Some e
         \<and> Console_error e \<in> set (history (snd (handleSearch_settle reply w))))
   \<and> (\<forall>response. reply = Inr response \<and> nullish (data response) \<longrightarrow>
         fst (try_block reply w) = Some TypeError
         \<and> Console_error TypeError \<in> set (history (snd (handleSearch_settle reply w))))
   \<and> (\<forall>response. reply = Inr response \<and> \<not> nullish (data response) \<longrightarrow>
         fst (try_block reply w) = None
         \<and> (\<forall>e. Console_error e \<in> set (history (snd (handleSearch_settle reply w)))
                \<longleftrightarrow> Console_error e \<in> set (history w)))"
proof -
  have none: "fst (handleSearch_settle r v) = None" for r v
    by (cases r rule: handleSearch_settle_cases)
       (simp_all add: handleSearch_settle_rejected handleSearch_settle_nullish
          handleSearch_settle_resolved)
  have whole: "fst (handleSearch net query w) = None"
    by (simp add: handleSearch_def none split: prod.split)
  have cleared: "\<not> loading (app (snd (handleSearch_settle reply w)))"
    by (cases reply rule: handleSearch_settle_cases)
       (simp_all add: handleSearch_settle_rejected handleSearch_settle_nullish
          handleSearch_settle_resolved)
  have empty: "results (app (snd (handleSearch_settle reply w))) = JArr []
             \<and> summary (app (snd (handleSearch_settle reply w))) = JStr ''''"
    if "\<forall>response. reply = Inr response \<longrightarrow> \<not> is_object (data response)"
    using that
    by (cases reply rule: handleSearch_settle_cases)
       (simp_all add: handleSearch_settle_rejected handleSearch_settle_nullish
          handleSearch_settle_resolved field_or_not_object)
  have rejected: "fst (try_block (Inl e) w) = Some e
              \<and> Console_error e \<in> set (history (snd (handleSearch_settle (Inl e) w)))" for e
    by (simp add: try_block_rejected handleSearch_settle_rejected)
  have thrown: "fst (try_block (Inr response) w) = Some TypeError
              \<and> Console_error TypeError \<in> set (history (snd (handleSearch_settle (Inr response) w)))"
    if "nullish (data response)" for response
    using that by (simp add: try_block_nullish handleSearch_settle_nullish)
  have quiet: "fst (try_block (Inr response) w) = None
              \<and> (\<forall>e. Console_error e \<in> set (history (snd (handleSearch_settle (Inr response) w)))
                     \<longleftrightarrow> Console_error e \<in> set (history w))"
    if "\<not> nullish (data response)" for response
    using that by (simp add: try_block_readable handleSearch_settle_resolved)
  show ?thesis
    using none [of reply w] whole cleared empty rejected thrown quiet by auto
qed

text \<open>
  C8 as it was stated fails on a body that is not an object and not \<^verbatim>\<open>null\<close> either.
  The body \<^verbatim>\<open>"hello"\<close> is a string: reading \<^verbatim>\<open>results\<close> and \<^verbatim>\<open>summary\<close> of it gives
  \<^verbatim>\<open>undefined\<close> twice, no exception leaves the \<^verbatim>\<open>try\<close> block, the \<^verbatim>\<open>catch\<close> block does
  not run and the console stays silent.
\<close>

theorem handleSearch_text_body_does_not_throw:
  "\<not> is_object (data response_text)
   \<and> fst (try_block (Inr response_text) world_init) = None
   \<and> Console_error TypeError
       \<notin> set (history (snd (handleSearch_settle (Inr response_text) world_init)))
   \<and> history (snd (handleSearch_settle (Inr response_text) world_init)) =
       [Http_settled (Inr response_text), Set_results (JArr []), Set_summary (JStr ''''),
        Set_loading False]"
  by (simp add: response_text_def world_init_def try_block_def searchAPI_settle_def Let_def
      handleSearch_settle_def catch_block_def js_or_def set_results_def set_summary_def
      set_loading_def emit_def)


section \<open>Instances\<close>

lemmas scenario_defs =
  paper_A_def paper_A_dup_def untagged_x_def untagged_y_def world_init_def world_holding_def
  response_dup_def response_null_def network_down_def data_init_def

theorem uniqueResults_first_occurrences_witness:
  "keyed paper_A \<and> keyed paper_A_dup
   \<and> fst (uniqueResults (world_holding [paper_A, paper_A_dup])) = Inr [paper_A]
   \<and> (\<exists>out. fst (uniqueResults (world_holding [paper_A, paper_A_dup])) = Inr out
         \<and> subseq out [paper_A, paper_A_dup]
         \<and> distinct (map pmc_id out)
         \<and> set (map pmc_id out) = set (map pmc_id [paper_A, paper_A_dup])
         \<and> (\<forall>r\<in>set [paper_A, paper_A_dup].
               find (\<lambda>x. pmc_id x = pmc_id r) out
                 = find (\<lambda>x. pmc_id x = pmc_id r) [paper_A, paper_A_dup]))"
proof -
  have stored: "results (app (world_holding [paper_A, paper_A_dup])) = JArr [paper_A, paper_A_dup]"
    by (simp add: world_holding_def)
  have k: "keyed paper_A" "keyed paper_A_dup"
    by (simp_all add: keyed_def pmc_id_def scenario_defs)
  then have keys: "\<forall>r\<in>set [paper_A, paper_A_dup]. keyed r"
    by simp
  have val: "fst (uniqueResults (world_holding [paper_A, paper_A_dup])) = Inr [paper_A]"
    by (simp add: uniqueResults_def keep_result_def Set_has_def Set_add_def scenario_defs)
  from uniqueResults_first_occurrences [OF stored keys] k val show ?thesis
    by blast
qed

theorem uniqueResults_missing_identifier_witness:
  "\<not> nullish untagged_x \<and> \<not> nullish paper_A \<and> \<not> nullish untagged_y
   \<and> fst (uniqueResults (world_holding [untagged_x, paper_A, untagged_y])) = Inr [untagged_x, paper_A]
   \<and> (\<exists>out. fst (uniqueResults (world_holding [untagged_x, paper_A, untagged_y])) = Inr out
         \<and> filter (\<lambda>r. pmc_id r = JUndefined) out
             = take 1 (filter (\<lambda>r. pmc_id r = JUndefined) [untagged_x, paper_A, untagged_y])
         \<and> history (snd (uniqueResults (world_holding [untagged_x, paper_A, untagged_y])))
             = history (world_holding [untagged_x, paper_A, untagged_y]))"
proof -
  have stored: "results (app (world_holding [untagged_x, paper_A, untagged_y])) =
                  JArr [untagged_x, paper_A, untagged_y]"
    by (simp add: world_holding_def)
  have n: "\<not> nullish untagged_x" "\<not> nullish paper_A" "\<not> nullish untagged_y"
    by (simp_all add: scenario_defs)
  then have readable: "\<forall>r\<in>set [untagged_x, paper_A, untagged_y]. \<not> nullish r"
    by simp
  have val: "fst (uniqueResults (world_holding [untagged_x, paper_A, untagged_y])) =
               Inr [untagged_x, paper_A]"
    by (simp add: uniqueResults_def keep_result_def Set_has_def Set_add_def scenario_defs)
  from uniqueResults_missing_identifier [OF stored readable] n val show ?thesis
    by blast
qed

theorem uniqueResults_frame_witness:
  "fst (uniqueResults (world_holding [paper_A, paper_A_dup])) = Inr [paper_A]
   \<and> snd (uniqueResults (world_holding [paper_A, paper_A_dup])) = world_holding [paper_A, paper_A_dup]
   \<and> results (app (snd (uniqueResults (world_holding [paper_A, paper_A_dup]))))
       = JArr [paper_A, paper_A_dup]"
proof -
  have val: "fst (uniqueResults (world_holding [paper_A, paper_A_dup])) = Inr [paper_A]"
    by (simp add: uniqueResults_def keep_result_def Set_has_def Set_add_def scenario_defs)
  have stored: "results (app (world_holding [paper_A, paper_A_dup])) = JArr [paper_A, paper_A_dup]"
    by (simp add: world_holding_def)
  from uniqueResults_frame [of "world_holding [paper_A, paper_A_dup]"] val stored
  show ?thesis by simp
qed

theorem handleSearch_failure_is_empty_witness:
  "network_down (fst (handleSearch_submit (JStr ''cancer treatment'') (world_holding [paper_A])))
     = Inl (RequestError ''Network Error'')
   \<and> results (app (snd (handleSearch network_down (JStr ''cancer treatment'')
                          (world_holding [paper_A])))) = JArr []
   \<and> summary (app (snd (handleSearch network_down (JStr ''cancer treatment'')
                          (world_holding [paper_A])))) = JStr ''''
   \<and> fst (App_render (snd (handleSearch network_down (JStr ''cancer treatment'')
                             (world_holding [paper_A])))) = Inr [No_results_message]"
proof -
  have down: "network_down (fst (handleSearch_submit (JStr ''cancer treatment'')
                (world_holding [paper_A]))) = Inl (RequestError ''Network Error'')"
    by (simp add: network_down_def)
  from handleSearch_failure_is_empty
         [where net = network_down and query = "JStr ''cancer treatment''"
            and w = "world_holding [paper_A]" and e = "RequestError ''Network Error''"]
       down
  show ?thesis by blast
qed

theorem handleSearch_loading_order_witness:
  "loading (app (snd (handleSearch_submit (JStr ''q'') world_init)))
   \<and> \<not> loading (app (snd (handleSearch network_down (JStr ''q'') world_init)))
   \<and> filter loading_or_http (history (snd (handleSearch network_down (JStr ''q'') world_init))) =
       [Set_loading True,
        Http_post \<lparr>req_method = ''POST'', req_baseURL = ''http://localhost:5001/api'',
                   req_url = ''/search'',
                   req_data = JObj [(''query'', JStr ''q''), (''top_k'', JNum 10)]\<rparr>,
        Http_settled (Inl (RequestError ''Network Error'')),
        Set_loading False]"
proof -
  have req: "fst (handleSearch_submit (JStr ''q'') world_init) =
      \<lparr>req_method = ''POST'', req_baseURL = ''http://localhost:5001/api'', req_url = ''/search'',
       req_data = JObj [(''query'', JStr ''q''), (''top_k'', JNum 10)]\<rparr>"
    by (simp add: handler_defs world_writes)
  have h: "history world_init = []"
    by (simp add: world_init_def)
  from handleSearch_loading_order [of "JStr ''q''" world_init _ _ network_down] show ?thesis
    by (simp add: req h network_down_def)
qed

theorem searched_is_a_latch_witness:
  "\<not> searched (app world_init)
   \<and> searched (app (step (Submit (JStr ''q'')) world_init))
   \<and> searched (app (run [Submit (JStr ''q''), Settle (Inl (RequestError ''Network Error'')), Render]
                      world_init))
   \<and> searched (app (run ([Submit (JStr ''q'')] @ [Settle (Inr response_null), Render]) world_init))
   \<and> Set_searched False \<notin> set (history world_init)
   \<and> Set_searched False \<notin> set (history (run [Submit (JStr ''q''), Settle (Inr response_dup)] world_init))"
proof -
  have init: "\<not> searched (app world_init)" "Set_searched False \<notin> set (history world_init)"
    by (simp_all add: world_init_def data_init_def)
  have one: "searched (app (run [Submit (JStr ''q'')] world_init))"
    by (simp add: handleSearch_submit_app)
  from searched_is_a_latch [of "JStr ''q''" world_init
        "[Settle (Inl (RequestError ''Network Error'')), Render]"]
    have a: "searched (app (step (Submit (JStr ''q'')) world_init))"
      "searched (app (run [Submit (JStr ''q''), Settle (Inl (RequestError ''Network Error'')), Render]
                      world_init))"
    by simp_all
  from searched_is_a_latch [of "JStr ''q''" world_init "[Submit (JStr ''q'')]"
        "[Settle (Inr response_null), Render]"] one
    have b: "searched (app (run ([Submit (JStr ''q'')] @ [Settle (Inr response_null), Render]) world_init))"
    by blast
  from searched_is_a_latch [of "JStr ''q''" world_init "[Submit (JStr ''q''), Settle (Inr response_dup)]"]
    init(2)
    have c: "Set_searched False \<notin> set (history (run [Submit (JStr ''q''), Settle (Inr response_dup)] world_init))"
    by blast
  from init a b c show ?thesis by blast
qed

theorem handleSearch_success_replaces_witness:
  "data response_dup = JObj [(''results'', JArr [paper_A, paper_A_dup]), (''summary'', JStr ''S'')]
   \<and> results (app (snd (handleSearch_settle (Inr response_dup) world_init)))
       = JArr [paper_A, paper_A_dup]
   \<and> summary (app (snd (handleSearch_settle (Inr response_dup) world_init))) = JStr ''S''
   \<and> results (app (snd (handleSearch_settle (Inr \<lparr>status = 200, data = JObj []\<rparr>)
                          (world_holding [paper_A])))) = JArr []
   \<and> summary (app (snd (handleSearch_settle (Inr \<lparr>status = 200, data = JObj []\<rparr>)
                          (world_holding [paper_A])))) = JStr ''''"
proof -
  have d: "data response_dup =
             JObj [(''results'', JArr [paper_A, paper_A_dup]), (''summary'', JStr ''S'')]"
    by (simp add: response_dup_def)
  have full: "results (app (snd (handleSearch_settle (Inr response_dup) world_init)))
                = JArr [paper_A, paper_A_dup]
            \<and> summary (app (snd (handleSearch_settle (Inr response_dup) world_init))) = JStr ''S''"
    using handleSearch_success_replaces [OF d, of world_init] by simp
  have missing: "results (app (snd (handleSearch_settle (Inr \<lparr>status = 200, data = JObj []\<rparr>)
                                  (world_holding [paper_A])))) = JArr []
            \<and> summary (app (snd (handleSearch_settle (Inr \<lparr>status = 200, data = JObj []\<rparr>)
                                  (world_holding [paper_A])))) = JStr ''''"
    using handleSearch_success_replaces
      [of "\<lparr>status = 200, data = JObj []\<rparr>" "[]" "world_holding [paper_A]"] by simp
  from d full missing show ?thesis by blast
qed

theorem searchAPI_contract_witness:
  "searchAPI (\<lambda>req. Inr response_dup) (JStr ''cancer treatment'') JUndefined world_init =
     (Inr (data response_dup),
      world_init\<lparr>history :=
        [Http_post \<lparr>req_method = ''POST'', req_baseURL = ''http://localhost:5001/api'',
                    req_url = ''/search'',
                    req_data = JObj [(''query'', JStr ''cancer treatment''), (''top_k'', JNum 10)]\<rparr>,
         Http_settled (Inr response_dup)]\<rparr>)"
  using searchAPI_contract [of "\<lambda>req. Inr response_dup" "JStr ''cancer treatment''" JUndefined world_init]
  by (simp add: world_init_def)

theorem no_results_message_iff_witness:
  "No_results_message \<in> set (SearchResults [] (JStr '''') False True)
   \<and> No_results_message \<notin> set (SearchResults [] (JStr '''') True True)
   \<and> No_results_message \<notin> set (SearchResults [paper_A] (JStr ''S'') False True)
   \<and> No_results_message \<notin> set (SearchResults [] (JStr '''') False False)"
  using no_results_message_iff [of "[]" "JStr ''''" False True]
    no_results_message_iff [of "[]" "JStr ''''" True True]
    no_results_message_iff [of "[paper_A]" "JStr ''S''" False True]
    no_results_message_iff [of "[]" "JStr ''''" False False]
  by simp

theorem handleSearch_never_throws_witness:
  "nullish (data response_null)
   \<and> fst (handleSearch_settle (Inr response_null) (world_holding [paper_A])) = None
   \<and> \<not> loading (app (snd (handleSearch_settle (Inr response_null) (world_holding [paper_A]))))
   \<and> results (app (snd (handleSearch_settle (Inr response_null) (world_holding [paper_A])))) = JArr []
   \<and> summary (app (snd (handleSearch_settle (Inr response_null) (world_holding [paper_A])))) = JStr ''''
   \<and> fst (try_block (Inr response_null) (world_holding [paper_A])) = Some TypeError
   \<and> Console_error TypeError
       \<in> set (history (snd (handleSearch_settle (Inr response_null) (world_holding [paper_A]))))
   \<and> \<not> nullish (data response_text) \<and> \<not> is_object (data response_text)
   \<and> fst (handleSearch_settle (Inr response_text) (world_holding [paper_A])) = None
   \<and> \<not> loading (app (snd (handleSearch_settle (Inr response_text) (world_holding [paper_A]))))
   \<and> results (app (snd (handleSearch_settle (Inr response_text) (world_holding [paper_A])))) = JArr []
   \<and> summary (app (snd (handleSearch_settle (Inr response_text) (world_holding [paper_A])))) = JStr ''''
   \<and> fst (try_block (Inr response_text) (world_holding [paper_A])) = None
   \<and> Console_error TypeError
       \<notin> set (history (snd (handleSearch_settle (Inr response_text) (world_holding [paper_A]))))
   \<and> fst (try_block (Inl (RequestError ''Network Error'')) (world_holding [paper_A]))
       = Some (RequestError ''Network Error'')"
proof -
  have n: "nullish (data response_null)"
    by (simp add: response_null_def)
  then have o: "\<forall>response. Inr response_null = (Inr response :: error + http_response)
                  \<longrightarrow> \<not> is_object (data response)"
    by (simp add: response_null_def)
  have t: "\<not> nullish (data response_text)" "\<not> is_object (data response_text)"
    by (simp_all add: response_text_def)
  then have p: "\<forall>response. Inr response_text = (Inr response :: error + http_response)
                  \<longrightarrow> \<not> is_object (data response)"
    by simp
  have h: "Console_error TypeError \<notin> set (history (world_holding [paper_A]))"
    by (simp add: world_holding_def)
  have a: "fst (handleSearch_settle (Inr response_null) (world_holding [paper_A])) = None
      \<and> \<not> loading (app (snd (handleSearch_settle (Inr response_null) (world_holding [paper_A]))))
      \<and> results (app (snd (handleSearch_settle (Inr response_null) (world_holding [paper_A])))) = JArr []
      \<and> summary (app (snd (handleSearch_settle (Inr response_null) (world_holding [paper_A])))) = JStr ''''
      \<and> fst (try_block (Inr response_null) (world_holding [paper_A])) = Some TypeError
      \<and> Console_error TypeError
          \<in> set (history (snd (handleSearch_settle (Inr response_null) (world_holding [paper_A]))))"
    using handleSearch_never_throws [of "Inr response_null" "world_holding [paper_A]"] n o
    by blast
  have b: "fst (handleSearch_settle (Inr response_text) (world_holding [paper_A])) = None
      \<and> \<not> loading (app (snd (handleSearch_settle (Inr response_text) (world_holding [paper_A]))))
      \<and> results (app (snd (handleSearch_settle (Inr response_text) (world_holding [paper_A])))) = JArr []
      \<and> summary (app (snd (handleSearch_settle (Inr response_text) (world_holding [paper_A])))) = JStr ''''
      \<and> fst (try_block (Inr response_text) (world_holding [paper_A])) = None
      \<and> Console_error TypeError
          \<notin> set (history (snd (handleSearch_settle (Inr response_text) (world_holding [paper_A]))))"
    using handleSearch_never_throws [of "Inr response_text" "world_holding [paper_A]"] t p h
    by blast
  have c: "fst (try_block (Inl (RequestError ''Network Error'')) (world_holding [paper_A]))
             = Some (RequestError ''Network Error'')"
    using handleSearch_never_throws
      [of "Inl (RequestError ''Network Error'')" "world_holding [paper_A]"]
    by blast
  from n t a b c show ?thesis by blast
qed

section \<open>Two runs\<close>

text \<open>
  The first scenario of the specification, from the initial state to the view: the
  response holds two entries with the identifier PMC1, and the view shows the summary
  and the card of the first entry alone.
\<close>

theorem scenario_duplicate_rendered:
  "fst (App_render (snd (handleSearch (\<lambda>req. Inr response_dup) (JStr ''cancer treatment'')
                           world_init))) =
     Inr [Summary_card (JStr ''S''), Result_cards [paper_A]]"
  by (simp add: handleSearch_def handleSearch_submit_def searchAPI_send_def axios_post_def
      Let_def world_writes handleSearch_settle_resolved field_or_def js_or_def
      App_render_def uniqueResults_def keep_result_def Set_has_def Set_add_def
      SearchResults_def scenario_defs)

text \<open>
  Two submissions in flight at once: when the request of the second settles before the
  request of the first, the component ends with the response to the first, and the
  loading flag is already false while the first request is still pending.
\<close>

theorem overlapping_submissions_last_settled_wins:
  "results (app (run [Submit (JStr ''first''), Submit (JStr ''second''),
                      Settle (Inr \<lparr>status = 200, data = JObj [(''results'', JArr [untagged_y])]\<rparr>),
                      Settle (Inr \<lparr>status = 200, data = JObj [(''results'', JArr [untagged_x])]\<rparr>)]
                 world_init)) = JArr [untagged_x]
   \<and> \<not> loading (app (run [Submit (JStr ''first''), Submit (JStr ''second''),
                      Settle (Inr \<lparr>status = 200, data = JObj [(''results'', JArr [untagged_y])]\<rparr>)]
                 world_init))"
  by (simp add: handleSearch_settle_resolved field_or_def js_or_def)

end
